theory Spec2Isabelle
  imports Complex_Main
begin

section \<open>Microstrip patch antenna calculator\<close>

text \<open>
  A shallow embedding of the class \<open>MicrostripPatchAntennaCalculator\<close> of \<open>v.5.py\<close>.

  Numbers. The source computes with IEEE doubles (Python \<open>float\<close> and \<open>numpy.float64\<close>).
  The embedding computes with \<^typ>\<open>real\<close>: every operation is the exact one, without
  rounding, overflow or underflow. Where the source leaves the finite numbers, the embedding
  returns an error value instead of a number:
  \<^item> \<open>ZeroDivisionError\<close>: a division of two Python floats by zero, which raises;
  \<^item> \<open>NonFinite\<close>: a numpy operation outside its real domain (division by zero, square root
    of a negative number, logarithm of zero), which does not raise but yields \<open>inf\<close> or
    \<open>nan\<close> with a warning. Arithmetic on \<open>inf\<close> and \<open>nan\<close> is not part of the embedding:
    the embedded function stops there with \<open>Inl NonFinite\<close>.

  Which divisions raise depends on the types of the operands. They are taken as they are on
  the path from \<open>calculate_antenna_parameters\<close>: \<open>fr\<close>, \<open>epsilon_r\<close>, \<open>h\<close>, the conductances
  and the edge impedance are Python floats; \<open>W\<close>, \<open>epsilon_ref\<close> and \<open>L\<close> are
  \<open>numpy.float64\<close>.
\<close>

datatype error = ZeroDivisionError | NonFinite

subsection \<open>The calculator object\<close>

text \<open>\<open>__init__\<close> sets the only attribute, \<open>self.c = 3e8\<close>.\<close>

record calculator =
  c :: real

definition init :: calculator where
  "init = \<lparr>c = 3 * 10 ^ 8\<rparr>"

subsection \<open>The library functions the source calls\<close>

text \<open>
  \<open>scipy.integrate.quad\<close>, \<open>scipy.integrate.dblquad\<close> and \<open>scipy.special.j0\<close> are not code of
  the repository. They are parameters of the embedding: \<open>quad f a b\<close> and
  \<open>dblquad f a b gfun hfun\<close> return a pair of the value of the integral and an error estimate,
  as the library does, and are functions of the integrand they are given. An integrand
  returns \<open>Inl NonFinite\<close> where the source's expression produces \<open>nan\<close>.
\<close>

record scipy =
  quad :: "(real \<Rightarrow> error + real) \<Rightarrow> real \<Rightarrow> real \<Rightarrow> real \<times> real"
  dblquad :: "(real \<Rightarrow> real \<Rightarrow> error + real) \<Rightarrow> real \<Rightarrow> real
               \<Rightarrow> (real \<Rightarrow> real) \<Rightarrow> (real \<Rightarrow> real) \<Rightarrow> real \<times> real"
  j0 :: "real \<Rightarrow> real"

subsection \<open>Geometry\<close>

text \<open>\<open>W = (self.c / (2 * fr)) * np.sqrt(2 / (epsilon_r + 1))\<close>\<close>

definition calculate_patch_width :: "calculator \<Rightarrow> real \<Rightarrow> real \<Rightarrow> error + real" where
  "calculate_patch_width self fr epsilon_r =
     (if 2 * fr = 0 then Inl ZeroDivisionError
      else if epsilon_r + 1 = 0 then Inl ZeroDivisionError
      else if 2 / (epsilon_r + 1) < 0 then Inl NonFinite
      else Inr ((c self / (2 * fr)) * sqrt (2 / (epsilon_r + 1))))"

text \<open>
  \<open>term = 1 / np.sqrt(1 + 12 * (h / W))\<close>,
  \<open>epsilon_ref = ((epsilon_r + 1) / 2 + (epsilon_r - 1) / 2 * term)\<close>
\<close>

definition calculate_effective_permittivity :: "real \<Rightarrow> real \<Rightarrow> real \<Rightarrow> error + real" where
  "calculate_effective_permittivity epsilon_r h W =
     (if W = 0 then Inl NonFinite
      else if 1 + 12 * (h / W) \<le> 0 then Inl NonFinite
      else
        let term = 1 / sqrt (1 + 12 * (h / W))
        in Inr ((epsilon_r + 1) / 2 + (epsilon_r - 1) / 2 * term))"

text \<open>
  \<open>term1 = self.c / (2 * fr * np.sqrt(epsilon_ref))\<close>,
  \<open>term2_numerator = (epsilon_ref + 0.3) * (W / h + 0.264)\<close>,
  \<open>term2_denominator = (epsilon_ref - 0.258) * (W / h + 0.8)\<close>,
  \<open>term2 = 0.824 * h * (term2_numerator / term2_denominator)\<close>, \<open>L = term1 - term2\<close>
\<close>

definition calculate_patch_length :: "calculator \<Rightarrow> real \<Rightarrow> real \<Rightarrow> real \<Rightarrow> real \<Rightarrow> error + real" where
  "calculate_patch_length self fr epsilon_ref h W =
     (if epsilon_ref < 0 \<or> 2 * fr * sqrt epsilon_ref = 0 then Inl NonFinite
      else if h = 0 then Inl NonFinite
      else
        let term1 = c self / (2 * fr * sqrt epsilon_ref);
            term2_numerator = (epsilon_ref + 0.3) * (W / h + 0.264);
            term2_denominator = (epsilon_ref - 0.258) * (W / h + 0.8)
        in if term2_denominator = 0 then Inl NonFinite
           else
             let term2 = 0.824 * h * (term2_numerator / term2_denominator)
             in Inr (term1 - term2))"

subsection \<open>Radiation conductances\<close>

text \<open>
  \<open>value1 = np.sin((k0 * W / 2) * np.cos(theta)) / np.cos(theta)\<close>,
  \<open>value = (value1 ** 2) * (np.sin(theta) ** 3)\<close>.
  Where \<open>np.cos(theta)\<close> is zero the quotient is \<open>0 / 0\<close>, a \<open>nan\<close>.
\<close>

definition integrand_G1 :: "real \<Rightarrow> real \<Rightarrow> real \<Rightarrow> error + real" where
  "integrand_G1 k0 W theta =
     (if cos theta = 0 then Inl NonFinite
      else
        let value1 = sin ((k0 * W / 2) * cos theta) / cos theta
        in Inr ((value1 ^ 2) * (sin theta ^ 3)))"

definition integrand_G12 :: "scipy \<Rightarrow> real \<Rightarrow> real \<Rightarrow> real \<Rightarrow> real \<Rightarrow> error + real" where
  "integrand_G12 sp k0 W L theta =
     (if cos theta = 0 then Inl NonFinite
      else
        let value1 = sin ((k0 * W / 2) * cos theta) / cos theta
        in Inr ((value1 ^ 2) * j0 sp (k0 * L * sin theta) * (sin theta ^ 3)))"

text \<open>
  \<open>lambda_0 = self.c / fr\<close>, \<open>k0 = 2 * np.pi / lambda_0\<close>, the two calls of \<open>quad\<close> on
  \<open>[0, np.pi]\<close>, \<open>G1 /= (120 * np.pi ** 2)\<close>, \<open>G12 /= (120 * np.pi ** 2)\<close>,
  \<open>return max(G1, 1e-12), max(G12, 1e-12)\<close>.
\<close>

definition calculate_conductances ::
  "scipy \<Rightarrow> calculator \<Rightarrow> real \<Rightarrow> real \<Rightarrow> real \<Rightarrow> error + real \<times> real" where
  "calculate_conductances sp self W L fr =
     (if fr = 0 then Inl ZeroDivisionError
      else
        let lambda_0 = c self / fr
        in if lambda_0 = 0 then Inl ZeroDivisionError
           else
             let k0 = 2 * pi / lambda_0;
                 G1 = fst (quad sp (integrand_G1 k0 W) 0 pi);
                 G12 = fst (quad sp (integrand_G12 sp k0 W L) 0 pi);
                 G1 = G1 / (120 * pi ^ 2);
                 G12 = G12 / (120 * pi ^ 2)
             in Inr (max G1 (1 / 10 ^ 12), max G12 (1 / 10 ^ 12)))"

subsection \<open>Edge impedance and feed position\<close>

text \<open>\<open>R_in = 1 / (2 * (G1 + G12))\<close>\<close>

definition calculate_input_impedance_edge :: "real \<Rightarrow> real \<Rightarrow> error + real" where
  "calculate_input_impedance_edge G1 G12 =
     (if 2 * (G1 + G12) = 0 then Inl ZeroDivisionError
      else Inr (1 / (2 * (G1 + G12))))"

text \<open>
  \<open>if R_in_edge < 50: y0 = 0\<close>, \<open>else: y0 = (L / np.pi) * np.acos(np.sqrt(50 / R_in_edge))\<close>.
  In the second branch the divisor is at least 50 and the argument of the arc cosine lies in
  \<open>(0, 1]\<close>, so no operation leaves the finite numbers.
\<close>

definition calculate_feed_position :: "real \<Rightarrow> real \<Rightarrow> real" where
  "calculate_feed_position R_in_edge L =
     (if R_in_edge < 50 then 0
      else (L / pi) * arccos (sqrt (50 / R_in_edge)))"

subsection \<open>Directivity\<close>

text \<open>
  \<open>value1 = np.sin((k0 * W / 2) * np.cos(theta))/np.cos(theta)\<close>,
  \<open>term1 = (value1 ** 2) * (np.sin(theta) ** 3)\<close>,
  \<open>Leff = self.c / (2 * fr * np.sqrt(epsilon_ref))\<close>,
  \<open>term2 = np.cos((k0 * Leff / 2) * np.sin(theta) * np.sin(phi)) ** 2\<close>,
  \<open>return term1 * term2\<close>
\<close>

definition integrand_I1 ::
  "calculator \<Rightarrow> real \<Rightarrow> real \<Rightarrow> real \<Rightarrow> real \<Rightarrow> real \<Rightarrow> real \<Rightarrow> error + real" where
  "integrand_I1 self k0 W fr epsilon_ref theta phi =
     (if cos theta = 0 then Inl NonFinite
      else if epsilon_ref < 0 \<or> 2 * fr * sqrt epsilon_ref = 0 then Inl NonFinite
      else
        let value1 = sin ((k0 * W / 2) * cos theta) / cos theta;
            term1 = (value1 ^ 2) * (sin theta ^ 3);
            Leff = c self / (2 * fr * sqrt epsilon_ref);
            term2 = cos ((k0 * Leff / 2) * sin theta * sin phi) ^ 2
        in Inr (term1 * term2))"

text \<open>
  \<open>I1, error = integrate.dblquad(integrand_I1, 0, np.pi, lambda x: 0, lambda x: np.pi)\<close>;
  if \<open>I1 > 0\<close> then \<open>D = ((2 * np.pi * W) / lambda_0) ** 2 * (np.pi / I1)\<close> and
  \<open>D_dBi = 10 * np.log10(D)\<close>, else \<open>D_dBi = 0\<close>. The argument \<open>L\<close> is not used.
  \<open>np.log10(0)\<close> is \<open>-inf\<close>.
\<close>

definition calculate_directivity ::
  "scipy \<Rightarrow> calculator \<Rightarrow> real \<Rightarrow> real \<Rightarrow> real \<Rightarrow> real \<Rightarrow> error + real" where
  "calculate_directivity sp self W L fr epsilon_ref =
     (if fr = 0 then Inl ZeroDivisionError
      else
        let lambda_0 = c self / fr
        in if lambda_0 = 0 then Inl ZeroDivisionError
           else
             let k0 = 2 * pi / lambda_0;
                 I1 = fst (dblquad sp (integrand_I1 self k0 W fr epsilon_ref) 0 pi
                             (\<lambda>x. 0) (\<lambda>x. pi))
             in if I1 > 0 then
                  let D = ((2 * pi * W) / lambda_0) ^ 2 * (pi / I1)
                  in if D \<le> 0 then Inl NonFinite
                     else Inr (10 * log 10 D)
                else Inr 0)"

subsection \<open>The pipeline\<close>

text \<open>The dictionary \<open>results\<close>, one field for each key.\<close>

record results =
  resonant_frequency :: real
  substrate_permittivity :: real
  substrate_height :: real
  patch_width :: real
  patch_length :: real
  effective_permittivity :: real
  single_slot_conductance :: real
  mutual_conductance :: real
  input_impedance_edge :: real
  feed_position_50ohm :: real
  directivity :: real

definition calculate_antenna_parameters ::
  "scipy \<Rightarrow> calculator \<Rightarrow> real \<Rightarrow> real \<Rightarrow> real \<Rightarrow> error + results" where
  "calculate_antenna_parameters sp self fr epsilon_r h =
     (case calculate_patch_width self fr epsilon_r of
        Inl e \<Rightarrow> Inl e
      | Inr W \<Rightarrow>
     (case calculate_effective_permittivity epsilon_r h W of
        Inl e \<Rightarrow> Inl e
      | Inr epsilon_ref \<Rightarrow>
     (case calculate_patch_length self fr epsilon_ref h W of
        Inl e \<Rightarrow> Inl e
      | Inr L \<Rightarrow>
     (case calculate_conductances sp self W L fr of
        Inl e \<Rightarrow> Inl e
      | Inr (G1, G12) \<Rightarrow>
     (case calculate_input_impedance_edge G1 G12 of
        Inl e \<Rightarrow> Inl e
      | Inr R_in_edge \<Rightarrow>
     (let y0 = calculate_feed_position R_in_edge L
      in (case calculate_directivity sp self W L fr epsilon_ref of
            Inl e \<Rightarrow> Inl e
          | Inr D \<Rightarrow>
              Inr \<lparr>resonant_frequency = fr,
                   substrate_permittivity = epsilon_r,
                   substrate_height = h,
                   patch_width = W,
                   patch_length = L,
                   effective_permittivity = epsilon_ref,
                   single_slot_conductance = G1,
                   mutual_conductance = G12,
                   input_impedance_edge = R_in_edge,
                   feed_position_50ohm = y0,
                   directivity = D\<rparr>)))))))"

subsection \<open>A library with constant integrators\<close>

text \<open>
  An instance of the library record whose integrators return the given values whatever the
  integrand is. It instantiates the theorems below at concrete inputs; the theorems
  themselves hold for every library.
\<close>

definition constant_scipy :: "real \<Rightarrow> real \<Rightarrow> scipy" where
  "constant_scipy v w =
     \<lparr>quad = (\<lambda>f a b. (v, 0)), dblquad = (\<lambda>f a b gfun hfun. (w, 0)), j0 = (\<lambda>x. 1)\<rparr>"

section \<open>Every stage returns on the valid inputs\<close>

text \<open>
  On the inputs \<open>fr > 0\<close>, \<open>\<epsilon>r \<ge> 1\<close>, \<open>h > 0\<close> no stage raises and no operation leaves the
  finite numbers: the pipeline returns a result, whatever the library returns.
\<close>

lemma patch_width_positive:
  assumes "0 < fr" and "- 1 < epsilon_r"
  shows "\<exists>W. calculate_patch_width init fr epsilon_r = Inr W \<and> 0 < W"
proof -
  have "0 < 2 / (epsilon_r + 1)" using assms(2) by simp
  then have "0 < sqrt (2 / (epsilon_r + 1))" by simp
  moreover have "0 < c init / (2 * fr)" using assms(1) by (simp add: init_def)
  ultimately have "0 < (c init / (2 * fr)) * sqrt (2 / (epsilon_r + 1))"
    by (rule mult_pos_pos [rotated])
  then show ?thesis using assms by (simp add: calculate_patch_width_def)
qed

lemma effective_permittivity_ge_1:
  assumes "1 \<le> epsilon_r" and "0 < h" and "0 < W"
  shows "\<exists>e. calculate_effective_permittivity epsilon_r h W = Inr e \<and> 1 \<le> e"
proof -
  have "0 < h / W" using assms by simp
  then have p: "0 < 1 + 12 * (h / W)" by simp
  then have "0 \<le> 1 / sqrt (1 + 12 * (h / W))" by simp
  moreover have "0 \<le> (epsilon_r - 1) / 2" using assms(1) by simp
  ultimately have "0 \<le> (epsilon_r - 1) / 2 * (1 / sqrt (1 + 12 * (h / W)))"
    by (rule mult_nonneg_nonneg [rotated])
  moreover have "1 \<le> (epsilon_r + 1) / 2" using assms(1) by simp
  ultimately
  have "1 \<le> (epsilon_r + 1) / 2 + (epsilon_r - 1) / 2 * (1 / sqrt (1 + 12 * (h / W)))"
    by (rule add_increasing2)
  then show ?thesis
    using assms(3) p by (simp add: calculate_effective_permittivity_def Let_def)
qed

lemma patch_length_returns:
  assumes "0 < fr" and "0.258 < epsilon_ref" and "0 < h" and "0 < W"
  shows "\<exists>L. calculate_patch_length self fr epsilon_ref h W = Inr L"
proof -
  have e: "0 < epsilon_ref" using assms(2) by simp
  then have s: "sqrt epsilon_ref \<noteq> 0" by simp
  have q: "0 < W / h" using assms by simp
  have d: "(epsilon_ref - 0.258) * (W / h + 0.8) \<noteq> 0"
    using assms(2) q by simp
  show ?thesis
    unfolding calculate_patch_length_def Let_def
    using assms(1,3) e s d by simp
qed

lemma conductances_returns:
  assumes "fr \<noteq> 0" and "c self \<noteq> 0"
  shows "\<exists>G1 G12. calculate_conductances sp self W L fr = Inr (G1, G12)
           \<and> 1 / 10 ^ 12 \<le> G1 \<and> 1 / 10 ^ 12 \<le> G12"
proof -
  define k0 where "k0 = 2 * pi / (c self / fr)"
  define G1 where
    "G1 = max (fst (quad sp (integrand_G1 k0 W) 0 pi) / (120 * pi ^ 2)) (1 / 10 ^ 12)"
  define G12 where
    "G12 = max (fst (quad sp (integrand_G12 sp k0 W L) 0 pi) / (120 * pi ^ 2)) (1 / 10 ^ 12)"
  have l: "c self / fr \<noteq> 0" using assms by simp
  have "calculate_conductances sp self W L fr = Inr (G1, G12)"
    unfolding calculate_conductances_def Let_def G1_def G12_def k0_def
    using assms(1) l by simp
  moreover have "1 / 10 ^ 12 \<le> G1" unfolding G1_def by (rule max.cobounded2)
  moreover have "1 / 10 ^ 12 \<le> G12" unfolding G12_def by (rule max.cobounded2)
  ultimately show ?thesis by blast
qed

lemma input_impedance_returns:
  assumes "1 / 10 ^ 12 \<le> G1" and "1 / 10 ^ 12 \<le> G12"
  shows "\<exists>R. calculate_input_impedance_edge G1 G12 = Inr R"
proof -
  have "0 < 2 * (G1 + G12)" using assms by simp
  then show ?thesis by (simp add: calculate_input_impedance_edge_def)
qed

lemma directivity_returns:
  assumes "fr \<noteq> 0" and "c self \<noteq> 0" and "W \<noteq> 0"
  shows "\<exists>D. calculate_directivity sp self W L fr epsilon_ref = Inr D"
proof -
  define lambda_0 where "lambda_0 = c self / fr"
  define I1 where "I1 = fst (dblquad sp (integrand_I1 self (2 * pi / lambda_0) W fr epsilon_ref)
                     0 pi (\<lambda>x. 0) (\<lambda>x. pi))"
  define D where "D = ((2 * pi * W) / lambda_0) ^ 2 * (pi / I1)"
  have l: "lambda_0 \<noteq> 0" unfolding lambda_0_def using assms(1,2) by simp
  have r: "calculate_directivity sp self W L fr epsilon_ref
          = (if I1 > 0 then if D \<le> 0 then Inl NonFinite else Inr (10 * log 10 D) else Inr 0)"
    unfolding calculate_directivity_def Let_def lambda_0_def[symmetric] I1_def[symmetric]
      D_def[symmetric]
    using assms(1) l by simp
  have "0 < D" if "0 < I1"
  proof -
    have "0 < ((2 * pi * W) / lambda_0) ^ 2" using assms(3) l by simp
    moreover have "0 < pi / I1" using that by simp
    ultimately show ?thesis unfolding D_def by (rule mult_pos_pos)
  qed
  then show ?thesis unfolding r by auto
qed

text \<open>
  With \<open>W = 0\<close> and a positive integral, \<open>D\<close> is zero and \<open>np.log10\<close> yields \<open>-inf\<close>.
\<close>

lemma directivity_zero_width:
  assumes "fr \<noteq> 0" and "c self \<noteq> 0"
    and "0 < fst (dblquad sp (integrand_I1 self (2 * pi / (c self / fr)) 0 fr epsilon_ref)
                    0 pi (\<lambda>x. 0) (\<lambda>x. pi))"
  shows "calculate_directivity sp self 0 L fr epsilon_ref = Inl NonFinite"
proof -
  have l: "c self / fr \<noteq> 0" using assms(1,2) by simp
  show ?thesis
    unfolding calculate_directivity_def Let_def
    using assms(1,3) l by simp
qed

lemma pipeline_returns:
  assumes "0 < fr" and "1 \<le> epsilon_r" and "0 < h"
  shows "\<exists>r. calculate_antenna_parameters sp init fr epsilon_r h = Inr r"
proof -
  have ci: "c init \<noteq> 0" by (simp add: init_def)
  have f0: "fr \<noteq> 0" using assms(1) by simp
  obtain W where w: "calculate_patch_width init fr epsilon_r = Inr W" and wp: "0 < W"
    using patch_width_positive [of fr epsilon_r] assms by auto
  obtain e where e: "calculate_effective_permittivity epsilon_r h W = Inr e" and e1: "1 \<le> e"
    using effective_permittivity_ge_1 [OF assms(2,3) wp] by auto
  have "0.258 < e" using e1 by simp
  then obtain L where l: "calculate_patch_length init fr e h W = Inr L"
    using patch_length_returns [OF assms(1) _ assms(3) wp] by auto
  obtain G1 G12 where g: "calculate_conductances sp init W L fr = Inr (G1, G12)"
    and g1: "1 / 10 ^ 12 \<le> G1" and g12: "1 / 10 ^ 12 \<le> G12"
    using conductances_returns [OF f0 ci] by blast
  obtain R where r: "calculate_input_impedance_edge G1 G12 = Inr R"
    using input_impedance_returns [OF g1 g12] by auto
  have "W \<noteq> 0" using wp by simp
  then obtain D where d: "calculate_directivity sp init W L fr e = Inr D"
    using directivity_returns [OF f0 ci] by blast
  show ?thesis
    unfolding calculate_antenna_parameters_def by (simp add: w e l g r d Let_def)
qed

text \<open>The fields of a returned result are the values of the stages.\<close>

lemma pipeline_fields:
  assumes "calculate_antenna_parameters sp self fr epsilon_r h = Inr r"
  shows "feed_position_50ohm r = calculate_feed_position (input_impedance_edge r) (patch_length r)"
    and "calculate_patch_width self fr epsilon_r = Inr (patch_width r)"
    and "calculate_effective_permittivity epsilon_r h (patch_width r)
           = Inr (effective_permittivity r)"
    and "calculate_patch_length self fr (effective_permittivity r) h (patch_width r)
           = Inr (patch_length r)"
  using assms
  by (auto simp add: calculate_antenna_parameters_def Let_def split: sum.splits prod.splits)

section \<open>Effective permittivity\<close>

lemma effective_permittivity_value:
  assumes "0 < h" and "0 < W"
  shows "calculate_effective_permittivity epsilon_r h W
           = Inr ((epsilon_r + 1) / 2 + (epsilon_r - 1) / 2 * (1 / sqrt (1 + 12 * (h / W))))"
proof -
  have "0 < h / W" using assms by simp
  then have "0 < 1 + 12 * (h / W)" by simp
  then show ?thesis
    using assms(2) by (simp add: calculate_effective_permittivity_def Let_def)
qed

lemma term_bounds:
  assumes "0 < (q::real)"
  shows "0 < 1 / sqrt (1 + 12 * q)" and "1 / sqrt (1 + 12 * q) < 1"
proof -
  have "1 < 1 + 12 * q" using assms by simp
  then have s: "1 < sqrt (1 + 12 * q)" by simp
  then show "0 < 1 / sqrt (1 + 12 * q)" by simp
  show "1 / sqrt (1 + 12 * q) < 1" using s by simp
qed

lemma term_strict_antimono:
  assumes "0 < (q::real)" and "q < q'"
  shows "1 / sqrt (1 + 12 * q') < 1 / sqrt (1 + 12 * q)"
proof -
  have "1 + 12 * q < 1 + 12 * q'" using assms by simp
  then have "sqrt (1 + 12 * q) < sqrt (1 + 12 * q')" by simp
  moreover have "0 < sqrt (1 + 12 * q)" using assms by simp
  ultimately show ?thesis by (simp add: frac_less2)
qed

section \<open>Feed position\<close>

text \<open>
  On the positive edge impedances the two branches are one expression: below 50 the
  square root exceeds 1 and the minimum cuts it to 1, where the arc cosine is 0.
\<close>

lemma feed_position_as_min:
  assumes "0 < R"
  shows "calculate_feed_position R L = (L / pi) * arccos (min 1 (sqrt (50 / R)))"
proof (cases "R < 50")
  case True
  then have "1 < 50 / R" using assms by (simp add: field_simps)
  then have "1 < sqrt (50 / R)" by simp
  then show ?thesis using True by (simp add: calculate_feed_position_def min_def)
next
  case False
  then have "50 / R \<le> 1" using assms by (simp add: field_simps)
  then have "sqrt (50 / R) \<le> 1" by simp
  then show ?thesis using False by (simp add: calculate_feed_position_def min_def)
qed

lemma feed_position_continuous_on: "continuous_on {0<..} (\<lambda>R. calculate_feed_position R L)"
proof -
  have m: "continuous_on {0<..} (\<lambda>R::real. min 1 (sqrt (50 / R)))"
    by (intro continuous_intros) auto
  have r: "(\<lambda>R::real. min 1 (sqrt (50 / R))) ` {0<..} \<subseteq> {-1..1}"
  proof
    fix y assume "y \<in> (\<lambda>R::real. min 1 (sqrt (50 / R))) ` {0<..}"
    then obtain R where "0 < R" and y: "y = min 1 (sqrt (50 / R))" by auto
    have "0 \<le> sqrt (50 / R)" using \<open>0 < R\<close> by simp
    then have "- 1 \<le> min 1 (sqrt (50 / R))" by linarith
    moreover have "min 1 (sqrt (50 / R)) \<le> 1" by linarith
    ultimately show "y \<in> {-1..1}" unfolding y by simp
  qed
  have a: "continuous_on {0<..} (\<lambda>R::real. arccos (min 1 (sqrt (50 / R))))"
    using continuous_on_compose2 [OF continuous_on_arccos' m r] .
  have b: "continuous_on {0<..} (\<lambda>R::real. (L / pi) * arccos (min 1 (sqrt (50 / R))))"
    by (intro continuous_on_mult_left a)
  have "continuous_on {0<..} (\<lambda>R. calculate_feed_position R L)
          \<longleftrightarrow> continuous_on {0<..} (\<lambda>R::real. (L / pi) * arccos (min 1 (sqrt (50 / R))))"
    by (rule continuous_on_cong) (simp_all add: feed_position_as_min)
  then show ?thesis using b by simp
qed

text \<open>For a patch length that is not negative the feed position lies in the first half.\<close>

lemma arccos_feed_bounds:
  assumes "50 \<le> R"
  shows "0 \<le> arccos (sqrt (50 / R))" and "arccos (sqrt (50 / R)) \<le> pi / 2"
proof -
  have "50 / R \<le> 1" using assms by simp
  then have u: "sqrt (50 / R) \<le> 1" by simp
  have l: "0 \<le> sqrt (50 / R)" using assms by simp
  have "- 1 \<le> sqrt (50 / R)" using l by linarith
  then show "0 \<le> arccos (sqrt (50 / R))" using u by (rule arccos_lbound)
  show "arccos (sqrt (50 / R)) \<le> pi / 2" using l u by (rule arccos_le_pi2)
qed

lemma feed_position_bounds:
  assumes "0 \<le> L"
  shows "0 \<le> calculate_feed_position R L" and "calculate_feed_position R L \<le> L / 2"
proof -
  have "0 \<le> calculate_feed_position R L \<and> calculate_feed_position R L \<le> L / 2"
  proof (cases "R < 50")
    case True
    then show ?thesis using assms by (simp add: calculate_feed_position_def)
  next
    case False
    then have r: "50 \<le> R" by simp
    have k: "0 \<le> L / pi" using assms by simp
    have "(L / pi) * arccos (sqrt (50 / R)) \<le> (L / pi) * (pi / 2)"
      using k arccos_feed_bounds(2) [OF r] by (rule mult_left_mono [rotated])
    then have "(L / pi) * arccos (sqrt (50 / R)) \<le> L / 2" by simp
    moreover have "0 \<le> (L / pi) * arccos (sqrt (50 / R))"
      using k arccos_feed_bounds(1) [OF r] by (rule mult_nonneg_nonneg)
    ultimately show ?thesis using False by (simp add: calculate_feed_position_def)
  qed
  then show "0 \<le> calculate_feed_position R L" and "calculate_feed_position R L \<le> L / 2"
    by simp_all
qed

section \<open>A degenerate geometry\<close>

text \<open>
  At 100 GHz on a 100 mm substrate of relative permittivity 1 (each the upper or lower end of
  the accepted range) the fringing term exceeds the half wavelength: the patch length is
  negative, about \<open>-47.9\<close> mm, whatever the library returns.
\<close>

lemma degenerate_width: "calculate_patch_width init (10 ^ 11) 1 = Inr (3 / 2000)"
  by (simp add: calculate_patch_width_def init_def)

lemma degenerate_permittivity: "calculate_effective_permittivity 1 (1 / 10) (3 / 2000) = Inr 1"
  by (simp add: calculate_effective_permittivity_def)

lemma degenerate_length:
  "calculate_patch_length init (10 ^ 11) 1 (1 / 10) (3 / 2000) = Inr (- 28979385 / 604730000)"
  by (simp add: calculate_patch_length_def init_def Let_def)

lemma degenerate_geometry:
  assumes "calculate_antenna_parameters sp init (10 ^ 11) 1 (1 / 10) = Inr r"
  shows "patch_length r = - 28979385 / 604730000"
proof -
  have w: "patch_width r = 3 / 2000"
    using pipeline_fields(2) [OF assms] degenerate_width by simp
  have e: "effective_permittivity r = 1"
    using pipeline_fields(3) [OF assms] degenerate_permittivity unfolding w by simp
  show ?thesis
    using pipeline_fields(4) [OF assms] degenerate_length unfolding w e by simp
qed

lemma degenerate_geometry_any_library:
  "\<exists>r. calculate_antenna_parameters sp init (10 ^ 11) 1 (1 / 10) = Inr r
        \<and> patch_length r < 0
        \<and> \<not> (0 \<le> feed_position_50ohm r \<and> feed_position_50ohm r \<le> patch_length r / 2)"
proof -
  obtain r where r: "calculate_antenna_parameters sp init (10 ^ 11) 1 (1 / 10) = Inr r"
    using pipeline_returns [of "10 ^ 11" 1 "1 / 10" sp] by auto
  have "patch_length r < 0" using degenerate_geometry [OF r] by simp
  then show ?thesis using r by auto
qed

text \<open>At 1 GHz on a 1 mm substrate of relative permittivity 1 the patch length is positive.\<close>

lemma ordinary_length:
  "calculate_patch_length init (10 ^ 9) 1 (1 / 1000) (3 / 20) = Inr (199796601 / 1344875000)"
  by (simp add: calculate_patch_length_def init_def Let_def)

section \<open>The singular point of the integrands\<close>

text \<open>
  In exact arithmetic the integrands are not defined at \<open>\<theta> = \<pi>/2\<close>: the source divides by
  \<open>cos \<theta>\<close> with no special case.
\<close>

lemma integrand_G1_half_pi: "integrand_G1 k0 W (pi / 2) = Inl NonFinite"
  by (simp add: integrand_G1_def)

lemma integrand_G12_half_pi: "integrand_G12 sp k0 W L (pi / 2) = Inl NonFinite"
  by (simp add: integrand_G12_def)

lemma integrand_I1_half_pi: "integrand_I1 self k0 W fr epsilon_ref (pi / 2) phi = Inl NonFinite"
  by (simp add: integrand_I1_def)

section \<open>Properties of the specification\<close>

text \<open>
  C1. The feed position is \<open>0\<close> whenever \<open>R_edge < 50\<close> and
  \<open>(L / \<pi>) arccos (\<surd>(50 / R_edge))\<close> whenever \<open>R_edge \<ge> 50\<close>; at \<open>R_edge = 50\<close> the second
  branch's expression is \<open>0\<close> as well, the function returns \<open>0\<close> there, and it is
  continuous at that point.
\<close>

theorem feed_position_branches:
  "(R_edge < 50 \<longrightarrow> calculate_feed_position R_edge L = 0)
   \<and> (50 \<le> R_edge \<longrightarrow>
        calculate_feed_position R_edge L = (L / pi) * arccos (sqrt (50 / R_edge)))
   \<and> (L / pi) * arccos (sqrt (50 / 50)) = 0
   \<and> calculate_feed_position 50 L = 0
   \<and> isCont (\<lambda>R. calculate_feed_position R L) 50"
proof -
  have "isCont (\<lambda>R. calculate_feed_position R L) 50"
    using feed_position_continuous_on [of L]
    by (simp add: continuous_on_eq_continuous_at)
  then show ?thesis by (simp add: calculate_feed_position_def)
qed

theorem feed_position_branches_witness:
  "calculate_feed_position 49 1 = 0
   \<and> calculate_feed_position 200 1 = 1 / 3
   \<and> calculate_feed_position 50 1 = 0"
  using feed_position_branches [of 49 1] feed_position_branches [of 200 1]
  by (simp add: real_sqrt_divide)

text \<open>
  C2, amended. For every \<open>\<epsilon>r \<ge> 1\<close>, \<open>h > 0\<close>, \<open>W > 0\<close> the effective permittivity lies in
  the closed interval \<open>[(\<epsilon>r + 1)/2, \<epsilon>r]\<close> and does not increase with \<open>h/W\<close>. For
  \<open>\<epsilon>r > 1\<close> it is strictly greater than \<open>(\<epsilon>r + 1)/2\<close>, strictly less than \<open>\<epsilon>r\<close> and strictly
  decreasing in \<open>h/W\<close>; for \<open>\<epsilon>r = 1\<close> it is \<open>1 = (\<epsilon>r + 1)/2\<close> for every \<open>h\<close> and \<open>W\<close>.
\<close>

theorem effective_permittivity_range:
  assumes "1 \<le> epsilon_r" and "0 < h" and "0 < W" and "0 < h'" and "0 < W'"
    and "h / W < h' / W'"
  shows "\<exists>v v'. calculate_effective_permittivity epsilon_r h W = Inr v
           \<and> calculate_effective_permittivity epsilon_r h' W' = Inr v'
           \<and> (epsilon_r + 1) / 2 \<le> v \<and> v \<le> epsilon_r \<and> v' \<le> v
           \<and> (1 < epsilon_r \<longrightarrow> (epsilon_r + 1) / 2 < v \<and> v < epsilon_r \<and> v' < v)
           \<and> (epsilon_r = 1 \<longrightarrow> v = 1 \<and> v' = 1)"
proof -
  define t where "t = 1 / sqrt (1 + 12 * (h / W))"
  define t' where "t' = 1 / sqrt (1 + 12 * (h' / W'))"
  define v where "v = (epsilon_r + 1) / 2 + (epsilon_r - 1) / 2 * t"
  define v' where "v' = (epsilon_r + 1) / 2 + (epsilon_r - 1) / 2 * t'"
  have q: "0 < h / W" using assms by simp
  have t: "0 < t" "t < 1" unfolding t_def using term_bounds [OF q] by simp_all
  have tt: "t' < t" unfolding t_def t'_def using term_strict_antimono [OF q assms(6)] .
  have e: "0 \<le> (epsilon_r - 1) / 2" using assms(1) by simp
  have 1: "calculate_effective_permittivity epsilon_r h W = Inr v"
    unfolding v_def t_def using effective_permittivity_value [OF assms(2,3)] .
  have 2: "calculate_effective_permittivity epsilon_r h' W' = Inr v'"
    unfolding v'_def t'_def using effective_permittivity_value [OF assms(4,5)] .
  have 3: "(epsilon_r + 1) / 2 \<le> v"
    unfolding v_def using e t(1) by simp
  have "(epsilon_r - 1) / 2 * t \<le> (epsilon_r - 1) / 2 * 1"
    using e t(2) by (intro mult_left_mono) simp_all
  then have 4: "v \<le> epsilon_r" unfolding v_def by (simp add: field_simps)
  have "(epsilon_r - 1) / 2 * t' \<le> (epsilon_r - 1) / 2 * t"
    using e tt by (intro mult_left_mono) simp_all
  then have 5: "v' \<le> v" unfolding v_def v'_def by simp
  have 6: "(epsilon_r + 1) / 2 < v \<and> v < epsilon_r \<and> v' < v" if "1 < epsilon_r"
  proof -
    have p: "0 < (epsilon_r - 1) / 2" using that by simp
    have a: "(epsilon_r + 1) / 2 < v" unfolding v_def using p t(1) by simp
    have "(epsilon_r - 1) / 2 * t < (epsilon_r - 1) / 2 * 1"
      using p t(2) by (intro mult_strict_left_mono) simp_all
    then have b: "v < epsilon_r" unfolding v_def by (simp add: field_simps)
    have "(epsilon_r - 1) / 2 * t' < (epsilon_r - 1) / 2 * t"
      using p tt by (intro mult_strict_left_mono) simp_all
    then have "v' < v" unfolding v_def v'_def by simp
    with a b show ?thesis by simp
  qed
  have 7: "v = 1 \<and> v' = 1" if "epsilon_r = 1"
    unfolding v_def v'_def using that by simp
  show ?thesis using 1 2 3 4 5 6 7 by blast
qed

theorem effective_permittivity_range_witness:
  "calculate_effective_permittivity 3 1 4 = Inr (5 / 2)
   \<and> calculate_effective_permittivity 3 2 1 = Inr (11 / 5)
   \<and> (3 + 1) / 2 < (5 / 2 :: real) \<and> (5 / 2 :: real) < 3 \<and> (11 / 5 :: real) < 5 / 2"
  using effective_permittivity_range [of 3 1 4 2 1]
  by (simp add: calculate_effective_permittivity_def)

theorem effective_permittivity_range_counterexample:
  "calculate_effective_permittivity 1 1 1 = Inr 1
   \<and> \<not> ((1 + 1) / 2 < (1::real))
   \<and> (1::real) / 1 < 2 / 1
   \<and> calculate_effective_permittivity 1 2 1 = Inr 1"
  by (simp add: calculate_effective_permittivity_def)

text \<open>
  C4. For \<open>fr \<noteq> 0\<close> (at \<open>fr = 0\<close> the division \<open>self.c / fr\<close> raises and nothing is
  returned) the conductance operation returns the pair of the two quadrature values, each
  divided by \<open>120 \<pi>\<^sup>2\<close> and then raised to the floor \<open>10\<^sup>-\<^sup>1\<^sup>2\<close>: both components are at least
  \<open>10\<^sup>-\<^sup>1\<^sup>2\<close> and strictly positive, for every \<open>W\<close>, \<open>L\<close> and every library.
\<close>

theorem conductances_floor:
  assumes "fr \<noteq> 0" and "c self \<noteq> 0"
  shows "\<exists>G1 G12. calculate_conductances sp self W L fr = Inr (G1, G12)
           \<and> G1 = max (fst (quad sp (integrand_G1 (2 * pi / (c self / fr)) W) 0 pi)
                          / (120 * pi ^ 2)) (1 / 10 ^ 12)
           \<and> G12 = max (fst (quad sp (integrand_G12 sp (2 * pi / (c self / fr)) W L) 0 pi)
                          / (120 * pi ^ 2)) (1 / 10 ^ 12)
           \<and> 1 / 10 ^ 12 \<le> G1 \<and> 1 / 10 ^ 12 \<le> G12 \<and> 0 < G1 \<and> 0 < G12"
proof -
  define G1 where "G1 = max (fst (quad sp (integrand_G1 (2 * pi / (c self / fr)) W) 0 pi)
                          / (120 * pi ^ 2)) (1 / 10 ^ 12)"
  define G12 where "G12 = max (fst (quad sp (integrand_G12 sp (2 * pi / (c self / fr)) W L) 0 pi)
                          / (120 * pi ^ 2)) (1 / 10 ^ 12)"
  have l: "c self / fr \<noteq> 0" using assms by simp
  have r: "calculate_conductances sp self W L fr = Inr (G1, G12)"
    unfolding calculate_conductances_def Let_def G1_def G12_def
    using assms(1) l by simp
  have f: "1 / 10 ^ 12 \<le> G1" "1 / 10 ^ 12 \<le> G12"
    unfolding G1_def G12_def by (rule max.cobounded2)+
  have "(0::real) < 1 / 10 ^ 12" by simp
  then have "0 < G1" "0 < G12" using f by linarith+
  then show ?thesis using r f G1_def G12_def by blast
qed

theorem conductances_floor_witness:
  "(1::real) \<noteq> 0 \<and> c init \<noteq> 0
   \<and> calculate_conductances (constant_scipy (- 1) 0) init 1 1 1 = Inr (1 / 10 ^ 12, 1 / 10 ^ 12)"
proof -
  have "- (1 / (120 * pi\<^sup>2)) \<le> (0::real)" by simp
  also have "(0::real) \<le> 1 / 10 ^ 12" by simp
  finally have m: "max (- (1 / (120 * pi\<^sup>2))) (1 / 10 ^ 12) = (1 / 10 ^ 12 :: real)"
    by (rule max_absorb2)
  have n: "c init \<noteq> 0" by (simp add: init_def)
  show ?thesis
    using conductances_floor [of 1 init "constant_scipy (- 1) 0" 1 1] m n
    by (auto simp add: constant_scipy_def)
qed

text \<open>
  C5. When the double integral \<open>I1\<close> is not positive the directivity operation returns
  \<open>0\<close> dBi and no error; when \<open>I1 > 0\<close> (and \<open>W \<noteq> 0\<close>, so that \<open>D\<close> is positive) it returns
  \<open>10 log\<^sub>1\<^sub>0 D\<close> with \<open>D = (2 \<pi> W / \<lambda>0)\<^sup>2 (\<pi> / I1)\<close> and \<open>\<lambda>0 = c / fr\<close>.
\<close>

theorem directivity_sentinel:
  assumes "fr \<noteq> 0" and "c self \<noteq> 0"
    and "lambda_0 = c self / fr"
    and "I1 = fst (dblquad sp (integrand_I1 self (2 * pi / lambda_0) W fr epsilon_ref) 0 pi
                     (\<lambda>x. 0) (\<lambda>x. pi))"
    and "D = ((2 * pi * W) / lambda_0) ^ 2 * (pi / I1)"
  shows "(I1 \<le> 0 \<longrightarrow> calculate_directivity sp self W L fr epsilon_ref = Inr 0)
       \<and> (0 < I1 \<and> W \<noteq> 0 \<longrightarrow>
            calculate_directivity sp self W L fr epsilon_ref = Inr (10 * log 10 D))"
proof -
  have l: "lambda_0 \<noteq> 0" using assms(1-3) by simp
  have "0 < D" if "0 < I1" and "W \<noteq> 0"
  proof -
    have "0 < ((2 * pi * W) / lambda_0) ^ 2" using that(2) l by simp
    moreover have "0 < pi / I1" using that(1) by simp
    ultimately show ?thesis unfolding assms(5) by (rule mult_pos_pos)
  qed
  then have d: "0 < I1 \<and> W \<noteq> 0 \<longrightarrow> \<not> D \<le> 0" by auto
  have "calculate_directivity sp self W L fr epsilon_ref
          = (if I1 > 0 then if D \<le> 0 then Inl NonFinite else Inr (10 * log 10 D) else Inr 0)"
    unfolding calculate_directivity_def Let_def assms(3)[symmetric] assms(4)[symmetric]
      assms(5)[symmetric]
    using assms(1) l by simp
  then show ?thesis using d by auto
qed

theorem directivity_sentinel_witness:
  "calculate_directivity (constant_scipy 0 (- 1)) init 1 1 1 1 = Inr 0
   \<and> calculate_directivity (constant_scipy 0 (pi / 10)) init (1 / (2 * pi)) 1 (3 * 10 ^ 8) 1 = Inr 10"
  using directivity_sentinel [of 1 init "c init / 1" _ "constant_scipy 0 (- 1)" 1 1 _ 1, OF _ _ refl refl refl]
    directivity_sentinel [of "3 * 10 ^ 8" init "c init / (3 * 10 ^ 8)" _ "constant_scipy 0 (pi / 10)" "1 / (2 * pi)" 1 _ 1, OF _ _ refl refl refl]
  by (simp add: init_def constant_scipy_def)

text \<open>
  C6. For every \<open>fr > 0\<close>, \<open>\<epsilon>reff > 0.258\<close>, \<open>h > 0\<close> and \<open>W > 0\<close> the patch length is
  \<open>L = c / (2 fr \<surd>\<epsilon>reff) - 2 \<Delta>L\<close>, where the fringing extension is
  \<open>\<Delta>L = 0.412 h (\<epsilon>reff + 0.3) (W/h + 0.264) / ((\<epsilon>reff - 0.258) (W/h + 0.8))\<close>.
\<close>

theorem patch_length_formula:
  assumes "0 < fr" and "0.258 < epsilon_ref" and "0 < h" and "0 < W"
  shows "calculate_patch_length self fr epsilon_ref h W
           = Inr (let Delta_L = 0.412 * h * (epsilon_ref + 0.3) * (W / h + 0.264)
                                  / ((epsilon_ref - 0.258) * (W / h + 0.8))
                  in c self / (2 * fr * sqrt epsilon_ref) - 2 * Delta_L)"
proof -
  have e: "0 < epsilon_ref" using assms(2) by simp
  then have s: "sqrt epsilon_ref \<noteq> 0" by simp
  have q: "0 < W / h" using assms by simp
  have d: "(epsilon_ref - 0.258) * (W / h + 0.8) \<noteq> 0"
    using assms(2) q by simp
  have t: "0.824 * h * (((epsilon_ref + 0.3) * (W / h + 0.264))
              / ((epsilon_ref - 0.258) * (W / h + 0.8)))
           = 2 * (0.412 * h * (epsilon_ref + 0.3) * (W / h + 0.264)
              / ((epsilon_ref - 0.258) * (W / h + 0.8)))"
    by (simp add: mult.assoc)
  have "calculate_patch_length self fr epsilon_ref h W
          = Inr (c self / (2 * fr * sqrt epsilon_ref)
                 - 0.824 * h * (((epsilon_ref + 0.3) * (W / h + 0.264))
                     / ((epsilon_ref - 0.258) * (W / h + 0.8))))"
    unfolding calculate_patch_length_def Let_def
    using assms(1,3) e s d by simp
  then show ?thesis unfolding Let_def t .
qed

theorem patch_length_formula_witness:
  "(0::real) < 1 \<and> (0.258::real) < 1 \<and> 
   calculate_patch_length init 1 1 1 1 = Inr (150000000 - 2 * (0.412 * 1.3 * 1.264 / (0.742 * 1.8)))"
  using patch_length_formula [of 1 1 1 1 init] by (simp add: init_def Let_def)

text \<open>
  C7. For every \<open>fr > 0\<close> and \<open>\<epsilon>r > -1\<close> the patch width is
  \<open>W = (c / (2 fr)) \<surd>(2 / (\<epsilon>r + 1))\<close>, and the calculator's speed of light is the
  approximation \<open>c = 3 \<times> 10\<^sup>8\<close>, not \<open>2.998 \<times> 10\<^sup>8\<close>.
\<close>

theorem patch_width_formula:
  assumes "0 < fr" and "- 1 < epsilon_r"
  shows "calculate_patch_width init fr epsilon_r
           = Inr ((c init / (2 * fr)) * sqrt (2 / (epsilon_r + 1)))
         \<and> c init = 3 * 10 ^ 8 \<and> c init \<noteq> 2998 * 10 ^ 5"
  using assms by (simp add: calculate_patch_width_def init_def)

theorem patch_width_formula_witness:
  "(0::real) < 1 \<and> - 1 < (1::real)
   \<and> calculate_patch_width init 1 1 = Inr (150000000)"
  using patch_width_formula [of 1 1] by (simp add: init_def)

text \<open>
  C8. The edge input impedance is \<open>R_edge = 1 / (2 (G1 + G12))\<close>; when both conductances are
  at least \<open>10\<^sup>-\<^sup>1\<^sup>2\<close> it is a number (no division by zero), strictly positive and at
  most \<open>5 \<times> 10\<^sup>1\<^sup>1\<close>.
\<close>

theorem input_impedance_edge_bounds:
  assumes "1 / 10 ^ 12 \<le> G1" and "1 / 10 ^ 12 \<le> G12"
  shows "\<exists>R. calculate_input_impedance_edge G1 G12 = Inr R
             \<and> R = 1 / (2 * (G1 + G12)) \<and> 0 < R \<and> R \<le> 5 * 10 ^ 11"
proof -
  have g: "4 / 10 ^ 12 \<le> 2 * (G1 + G12)" using assms by simp
  then have p: "0 < 2 * (G1 + G12)" by simp
  have "1 / (2 * (G1 + G12)) \<le> 1 / (4 / 10 ^ 12)"
    using g by (intro divide_left_mono) simp_all
  then have "1 / (2 * (G1 + G12)) \<le> 5 * 10 ^ 11" by simp
  then show ?thesis using p by (simp add: calculate_input_impedance_edge_def)
qed

theorem input_impedance_edge_bounds_witness:
  "(1::real) / 10 ^ 12 \<le> 1 / 10 ^ 12
   \<and> calculate_input_impedance_edge (1 / 10 ^ 12) (1 / 10 ^ 12) = Inr (25 * 10 ^ 10)"
  using input_impedance_edge_bounds [of "1 / 10 ^ 12" "1 / 10 ^ 12"] by auto

text \<open>
  C9, amended. For every result of the pipeline whose patch length is not negative, the
  feed position lies in the closed interval from \<open>0\<close> to half the patch length of the same
  result.
\<close>

theorem feed_position_in_half_patch:
  assumes "calculate_antenna_parameters sp self fr epsilon_r h = Inr r"
    and "0 \<le> patch_length r"
  shows "0 \<le> feed_position_50ohm r \<and> feed_position_50ohm r \<le> patch_length r / 2"
  using feed_position_bounds [OF assms(2)] pipeline_fields(1) [OF assms(1)] by simp

theorem feed_position_in_half_patch_witness:
  "\<exists>r. calculate_antenna_parameters (constant_scipy 0 0) init (10 ^ 9) 1 (1 / 1000) = Inr r
        \<and> 0 \<le> patch_length r
        \<and> 0 \<le> feed_position_50ohm r \<and> feed_position_50ohm r \<le> patch_length r / 2"
proof -
  obtain r where
    r: "calculate_antenna_parameters (constant_scipy 0 0) init (10 ^ 9) 1 (1 / 1000) = Inr r"
    using pipeline_returns [of "10 ^ 9" 1 "1 / 1000" "constant_scipy 0 0"] by auto
  have "calculate_patch_width init (10 ^ 9) 1 = Inr (3 / 20)"
    by (simp add: calculate_patch_width_def init_def)
  then have w: "patch_width r = 3 / 20"
    using pipeline_fields(2) [OF r] by simp
  have "calculate_effective_permittivity 1 (1 / 1000) (3 / 20) = Inr 1"
    by (simp add: calculate_effective_permittivity_def)
  then have e: "effective_permittivity r = 1"
    using pipeline_fields(3) [OF r] unfolding w by simp
  have l: "0 \<le> patch_length r"
    using pipeline_fields(4) [OF r] ordinary_length unfolding w e by simp
  show ?thesis
    using r l feed_position_in_half_patch [OF r l] by blast
qed

theorem feed_position_in_half_patch_counterexample:
  "\<not> isl (calculate_antenna_parameters (constant_scipy 0 0) init (10 ^ 11) 1 (1 / 10))
   \<and> patch_length (projr (calculate_antenna_parameters (constant_scipy 0 0) init (10 ^ 11) 1 (1 / 10)))
       = - 28979385 / 604730000
   \<and> \<not> (0 \<le> feed_position_50ohm
               (projr (calculate_antenna_parameters (constant_scipy 0 0) init (10 ^ 11) 1 (1 / 10)))
        \<and> feed_position_50ohm
               (projr (calculate_antenna_parameters (constant_scipy 0 0) init (10 ^ 11) 1 (1 / 10)))
            \<le> patch_length
               (projr (calculate_antenna_parameters (constant_scipy 0 0) init (10 ^ 11) 1 (1 / 10)))
               / 2)"
proof -
  obtain r where
    r: "calculate_antenna_parameters (constant_scipy 0 0) init (10 ^ 11) 1 (1 / 10) = Inr r"
    using pipeline_returns [of "10 ^ 11" 1 "1 / 10" "constant_scipy 0 0"] by auto
  have l: "patch_length r = - 28979385 / 604730000" using degenerate_geometry [OF r] .
  show ?thesis unfolding r using l by simp
qed

text \<open>
  C10. The single-slot conductance does not depend on the patch length: if the conductance
  operation returns \<open>(G1, G12)\<close> for \<open>W\<close>, \<open>L1\<close>, \<open>fr\<close>, it returns a pair with the same
  first component \<open>G1\<close> for \<open>W\<close>, \<open>L2\<close>, \<open>fr\<close>.
\<close>

theorem conductance_G1_independent_of_L:
  assumes "calculate_conductances sp self W L1 fr = Inr (G1, G12)"
  shows "\<exists>G12'. calculate_conductances sp self W L2 fr = Inr (G1, G12')"
  using assms by (auto simp add: calculate_conductances_def Let_def split: if_splits)

theorem conductance_G1_independent_of_L_witness:
  "calculate_conductances (constant_scipy (120 * pi ^ 2) 0) init 1 1 1 = Inr (1, 1)
   \<and> (\<exists>G12'. calculate_conductances (constant_scipy (120 * pi ^ 2) 0) init 1 2 1 = Inr (1, G12'))"
proof -
  have 1: "calculate_conductances (constant_scipy (120 * pi ^ 2) 0) init 1 1 1 = Inr (1, 1)"
    by (simp add: calculate_conductances_def Let_def init_def constant_scipy_def)
  show ?thesis using 1 conductance_G1_independent_of_L [OF 1, of 2] by simp
qed

end
